theory Spec2Isabelle
  imports Complex_Main
begin

section \<open>The status bar of ranger (ranger/gui/widgets/statusbar.py)\<close>

text \<open>
  A shallow embedding of the class \<open>StatusBar\<close> and of the class \<open>Message\<close>.
  Attributes of the widget become fields of a record that every method takes and returns;
  the objects the widget reads (the current file, the directories, the clock) are inputs
  of each call; the calls made on the curses window are returned as a list, in order;
  an exception that the source does not catch is the \<open>Inl\<close> of a sum, and what the
  method did before it raised is not kept.
\<close>

subsection \<open>Python values\<close>

text \<open>\<open>str(n)\<close> of a non-negative integer: its decimal digits.\<close>

definition digit :: "nat \<Rightarrow> char" where
  "digit d =
     (if d = 0 then CHR ''0'' else if d = 1 then CHR ''1'' else if d = 2 then CHR ''2''
      else if d = 3 then CHR ''3'' else if d = 4 then CHR ''4'' else if d = 5 then CHR ''5''
      else if d = 6 then CHR ''6'' else if d = 7 then CHR ''7'' else if d = 8 then CHR ''8''
      else CHR ''9'')"

fun str_nat :: "nat \<Rightarrow> string" where
  "str_nat n = (if n < 10 then [digit n] else str_nat (n div 10) @ [digit (n mod 10)])"

declare str_nat.simps [simp del]

text \<open>
  The integer nearest to a number, the even one of the two when the number lies half-way
  between them: the rounding of the format \<open>.0f\<close> and of the arithmetic of floats.
\<close>

definition round_half_even :: "real \<Rightarrow> int" where
  "round_half_even q =
     (let f = \<lfloor>q\<rfloor>; r = q - of_int f
      in if r < 1 / 2 then f
         else if 1 / 2 < r then f + 1
         else if even f then f else f + 1)"

text \<open>
  A Python float is a binary64 number: a real number with a significand of 53 bits. The
  doubles around \<open>x\<close> are the multiples of \<open>2 powi double_exponent x\<close>, and the result
  of an operation on floats is its exact result rounded to the nearest double, a tie to
  the one with the even significand. Overflow and the subnormal numbers are left out:
  the clock and the durations are far from both.
\<close>

definition double_exponent :: "real \<Rightarrow> int" where
  "double_exponent x = \<lfloor>log 2 \<bar>x\<bar>\<rfloor> - 52"

definition double_round :: "real \<Rightarrow> real" where
  "double_round x =
     (if x = 0 then 0
      else of_int (round_half_even (x / 2 powi double_exponent x)) * 2 powi double_exponent x)"


text \<open>
  \<open>str.split('//')\<close>: the pieces between the occurrences of the separator, found from
  left to right without overlap; a string without separator is its only piece.
\<close>

fun split_slashes :: "string \<Rightarrow> string list" where
  "split_slashes [] = [[]]"
| "split_slashes (a # b # cs) =
     (if a = CHR ''/'' \<and> b = CHR ''/'' then [] # split_slashes cs
      else (case split_slashes (b # cs) of
              [] \<Rightarrow> [[a]]
            | w # ws \<Rightarrow> (a # w) # ws))"
| "split_slashes [a] = [[a]]"

text \<open>
  The value of the attribute \<open>hint\<close>: \<open>None\<close>, a string, or an object of another type,
  of which only the truth value is read.
\<close>

datatype hint_value = HNone | HStr string | HObj bool

fun truthy_hint :: "hint_value \<Rightarrow> bool" where
  "truthy_hint HNone = False"
| "truthy_hint (HStr t) = (t \<noteq> [])"
| "truthy_hint (HObj b) = b"

fun is_str :: "hint_value \<Rightarrow> bool" where
  "is_str (HStr t) = True"
| "is_str _ = False"

fun str_of :: "hint_value \<Rightarrow> string" where
  "str_of (HStr t) = t"
| "str_of _ = []"

text \<open>The truth value of a number or \<open>None\<close>, and of a list or \<open>None\<close>.\<close>

fun truthy_int :: "int option \<Rightarrow> bool" where
  "truthy_int None = False"
| "truthy_int (Some n) = (n \<noteq> 0)"

fun truthy_list :: "'a list option \<Rightarrow> bool" where
  "truthy_list None = False"
| "truthy_list (Some xs) = (xs \<noteq> [])"

text \<open>
  The exceptions that the source does not catch; \<open>CursesError\<close> is what a rejected
  write on the window raises.
\<close>

datatype error = AttributeError | TypeError | CursesError

subsection \<open>The objects the status bar reads\<close>

text \<open>
  The classes of files, directories and columns are not part of the file; each object is
  a record of the attributes that the status bar reads. \<open>oid\<close> is the identity of the
  Python object, which \<open>!=\<close> compares. \<open>stat\<close> is \<open>None\<close> when the attribute is \<open>None\<close>
  and when reading it raises. \<open>permission_string\<close> is the value of
  \<open>get_permission_string()\<close>, \<open>fsize\<close> the attribute \<open>size\<close>, \<open>len\<close> the value of
  \<open>len(target)\<close>. \<open>disk_usage\<close> is a number or \<open>None\<close>; \<open>scroll_begin\<close> is an index
  into the listing and not negative. Times are Python floats, read as real numbers.
\<close>

record stat_result =
  st_uid :: nat
  st_gid :: nat
  st_nlink :: nat
  st_mtime :: real

record fsobject =
  oid :: nat
  stat :: "stat_result option"
  permission_string :: string
  is_link :: bool
  exists :: bool
  readlink :: string
  infostring :: "string option"
  fsize :: int
  is_file :: bool

record directory =
  accessible :: bool
  is_directory :: bool
  files :: "fsobject list option"
  marked_items :: "fsobject list"
  scroll_begin :: nat
  len :: nat
  disk_usage :: "int option"
  mount_path :: string
  pointed_obj :: "fsobject option"

record column =
  target :: "directory option"
  hei :: nat

text \<open>
  What one call reads from \<open>self.env\<close>, \<open>self.settings\<close> and the clock: \<open>now\<close> is the
  value of \<open>time()\<close>, \<open>at_level0\<close> is \<open>env.at_level(0)\<close>.
\<close>

record environment =
  now :: real
  cf :: "fsobject option"
  cwd :: directory
  at_level0 :: directory
  display_size_in_status_bar :: bool

text \<open>
  A piece of the bar: \<open>fstring\<close> is its text (the attribute \<open>string\<close>), \<open>lst\<close> its tags.
\<close>

record fragment =
  fstring :: string
  lst :: "string list"

type_synonym barside = "fragment list"

text \<open>
  What the operating system and the other modules of ranger do for the status bar.
  \<open>getpwuid\<close> and \<open>getgrgid\<close> give the name of an id, \<open>None\<close> where Python raises
  \<open>KeyError\<close>. \<open>ruid\<close> and \<open>euid\<close> are the real and the effective user id of the process.
  \<open>strftime_localtime fmt t\<close> is \<open>strftime(fmt, localtime(t))\<close>. \<open>human_readable\<close> is
  called with \<open>seperator=''\<close>. \<open>addnstr_raises y x str n\<close> tells whether the call
  \<open>self.addnstr(y, x, str, n)\<close> raises. \<open>shrink_by_removing\<close> is the method of \<open>Bar\<close>.
\<close>

record system =
  getpwuid :: "nat \<Rightarrow> string option"
  getgrgid :: "nat \<Rightarrow> string option"
  ruid :: nat
  euid :: nat
  strftime_localtime :: "string \<Rightarrow> real \<Rightarrow> string"
  human_readable :: "int option \<Rightarrow> string"
  get_free_space :: "string \<Rightarrow> int"
  addnstr_raises :: "int \<Rightarrow> int \<Rightarrow> string \<Rightarrow> int \<Rightarrow> bool"
  shrink_by_removing :: "int \<Rightarrow> barside \<times> barside \<Rightarrow> barside \<times> barside"

text \<open>\<open>os.getuid()\<close> returns the real user id of the process.\<close>

definition getuid :: "system \<Rightarrow> nat" where
  "getuid sy = ruid sy"

text \<open>
  Modelled from the spec: the class \<open>Bar\<close> (ranger.gui.bar) is not among the sources.
  A fragment is a text with its ordered style tags and a side of the bar is an ordered
  sequence of fragments; \<open>add\<close> appends a fragment to a side.
\<close>

definition add :: "barside \<Rightarrow> string \<Rightarrow> string list \<Rightarrow> barside" where
  "add side t tags = side @ [\<lparr>fstring = t, lst = tags\<rparr>]"

text \<open>
  Modelled from the spec: \<open>add_space\<close> of \<open>Bar\<close>, not among the sources, appends one
  space, tagged like the spaces that the source adds itself.
\<close>

definition add_space :: "barside \<Rightarrow> barside" where
  "add_space side = add side '' '' [''space'']"

text \<open>
  Modelled from the spec: \<open>combine\<close> of \<open>Bar\<close>, not among the sources, gives the left
  side followed by the right side.
\<close>

definition combine :: "barside \<times> barside \<Rightarrow> fragment list" where
  "combine b = fst b @ snd b"

subsection \<open>Messages\<close>

record message =
  msg_text :: string
  bad :: bool
  elapse :: real

text \<open>
  \<open>Message.__init__\<close>, called when \<open>time()\<close> is \<open>t\<close>: \<open>time() + duration\<close> is an
  addition of floats.
\<close>

definition Message :: "real \<Rightarrow> string \<Rightarrow> real \<Rightarrow> bool \<Rightarrow> message" where
  "Message t txt duration b =
     \<lparr>msg_text = txt, bad = b, elapse = double_round (t + duration)\<rparr>"

text \<open>\<open>Message.is_alive\<close>, called when \<open>time()\<close> is \<open>t\<close>.\<close>

definition is_alive :: "real \<Rightarrow> message \<Rightarrow> bool" where
  "is_alive t m = (t \<le> elapse m)"

subsection \<open>The widget\<close>

text \<open>
  The attributes of a \<open>StatusBar\<close>. \<open>old_cf\<close> holds a reference, that is the identity of
  an object, or \<open>None\<close>. \<open>x_pos\<close> is the attribute \<open>x\<close>. The dictionaries \<open>owners\<close> and
  \<open>groups\<close> belong to the class and are updated in place.
\<close>

type_synonym name_cache = "nat \<rightharpoonup> string"

record statusbar =
  owners :: name_cache
  groups :: name_cache
  hint :: hint_value
  msg :: "message option"
  old_cf :: "nat option"
  old_mtime :: "real option"
  old_du :: "int option"
  old_hint :: hint_value
  result :: "fragment list option"
  need_redraw :: bool
  column :: "column option"
  wid :: int
  x_pos :: int

text \<open>The class attribute \<open>timeformat\<close>.\<close>

definition timeformat :: string where
  "timeformat = ''%Y-%m-%d %H:%M''"

text \<open>The calls on the curses window, through the methods of \<open>Widget\<close>.\<close>

datatype call =
    Erase
  | Color "string list"
  | Addnstr int int string int
  | Move int int
  | Addstr string
  | ColorReset

text \<open>\<open>request_redraw\<close>.\<close>

definition request_redraw :: "statusbar \<Rightarrow> statusbar" where
  "request_redraw s = s\<lparr>need_redraw := True\<rparr>"


subsection \<open>The caches of owner and group names\<close>

text \<open>
  Each lookup returns the name, the dictionary after the call and the ids for which the
  operating system was asked during the call. Reading \<open>target.stat.st_uid\<close> raises when
  \<open>target.stat\<close> is \<open>None\<close>.
\<close>

definition get_owner :: "system \<Rightarrow> name_cache \<Rightarrow> fsobject \<Rightarrow> error + (string \<times> name_cache \<times> nat list)" where
  "get_owner sy cache t =
     (case stat t of
        None \<Rightarrow> Inl AttributeError
      | Some st \<Rightarrow>
          (let uid = st_uid st in
           case cache uid of
             Some name \<Rightarrow> Inr (name, cache, [])
           | None \<Rightarrow>
               (case getpwuid sy uid of
                  Some name \<Rightarrow> Inr (name, cache(uid \<mapsto> name), [uid])
                | None \<Rightarrow> Inr (str_nat uid, cache, [uid]))))"

definition get_group :: "system \<Rightarrow> name_cache \<Rightarrow> fsobject \<Rightarrow> error + (string \<times> name_cache \<times> nat list)" where
  "get_group sy cache t =
     (case stat t of
        None \<Rightarrow> Inl AttributeError
      | Some st \<Rightarrow>
          (let gid = st_gid st in
           case cache gid of
             Some name \<Rightarrow> Inr (name, cache, [])
           | None \<Rightarrow>
               (case getgrgid sy gid of
                  Some name \<Rightarrow> Inr (name, cache(gid \<mapsto> name), [gid])
                | None \<Rightarrow> Inr (str_nat gid, cache, [gid]))))"

subsection \<open>Drawing a message and a hint\<close>

text \<open>
  \<open>_draw_message\<close>; the caller has checked that \<open>self.msg\<close> is a message. The call of
  \<open>addnstr\<close> stands outside any \<open>try\<close>: when it raises, the exception leaves the method.
\<close>

definition draw_message :: "system \<Rightarrow> statusbar \<Rightarrow> message \<Rightarrow> error + call list" where
  "draw_message sy s m =
     (if addnstr_raises sy 0 0 (msg_text m) (wid s) then Inl CursesError
      else Inr [Erase,
                Color [''in_statusbar'', ''message'', if bad m then ''bad'' else ''good''],
                Addnstr 0 0 (msg_text m) (wid s)])"

text \<open>
  The loop of \<open>_draw_hint\<close> over the pieces of the hint. \<open>highlight\<close>, \<open>space_left\<close> and
  \<open>starting_point\<close> are the variables of the source before the piece is handled. A call
  of \<open>addnstr\<close> that raises is recorded and ends the loop.
\<close>

fun hint_loop :: "system \<Rightarrow> string list \<Rightarrow> bool \<Rightarrow> int \<Rightarrow> int \<Rightarrow> call list" where
  "hint_loop sy [] highlight space_left starting_point = []"
| "hint_loop sy (piece # rest) highlight space_left starting_point =
     (let highlight' = (\<not> highlight);
          colour = (if highlight' then Color [''in_statusbar'', ''text'', ''highlight'']
                    else Color [''in_statusbar'', ''text''])
      in if addnstr_raises sy 0 starting_point piece space_left
         then [colour, Addnstr 0 starting_point piece space_left]
         else colour # Addnstr 0 starting_point piece space_left #
              hint_loop sy rest highlight' (space_left - int (length piece))
                (starting_point + int (length piece)))"

text \<open>
  \<open>_draw_hint\<close>. \<open>draw\<close> calls it only when \<open>self.hint\<close> is a string; for another
  value the source would raise.
\<close>

definition draw_hint :: "system \<Rightarrow> statusbar \<Rightarrow> call list" where
  "draw_hint sy s =
     Erase # hint_loop sy (split_slashes (str_of (hint s))) True (wid s) (x_pos s)"

subsection \<open>The left part\<close>

text \<open>The file that \<open>_get_left_part\<close> describes; \<open>None\<close> is Python's \<open>None\<close>.\<close>

definition left_target :: "environment \<Rightarrow> statusbar \<Rightarrow> fsobject option" where
  "left_target e s =
     (case column s of
        None \<Rightarrow> pointed_obj (at_level0 e)
      | Some c \<Rightarrow>
          (case target c of
             None \<Rightarrow> pointed_obj (at_level0 e)
           | Some d \<Rightarrow> if is_directory d then pointed_obj d else pointed_obj (at_level0 e)))"

text \<open>
  \<open>_get_left_part\<close>, given the left side of the bar: the side and the widget after the
  call. Reading \<open>target.stat\<close> of \<open>None\<close> raises, which the source catches.
\<close>

definition get_left_part :: "system \<Rightarrow> environment \<Rightarrow> statusbar \<Rightarrow> barside \<Rightarrow> error + (barside \<times> statusbar)" where
  "get_left_part sy e s left =
     (case left_target e s of
        None \<Rightarrow> Inr (left, s)
      | Some t \<Rightarrow>
          (case stat t of
             None \<Rightarrow> Inr (left, s)
           | Some st \<Rightarrow>
               (let perms = permission_string t;
                    how = (if getuid sy = st_uid st then ''good'' else ''bad'');
                    l1 = add left perms [''permissions'', how];
                    l2 = add_space l1;
                    l3 = add l2 (str_nat (st_nlink st)) [''nlink''];
                    l4 = add_space l3
                in case get_owner sy (owners s) t of
                     Inl err \<Rightarrow> Inl err
                   | Inr (owner, oc, _) \<Rightarrow>
                       (let s1 = s\<lparr>owners := oc\<rparr>;
                            l5 = add l4 owner [''owner''];
                            l6 = add_space l5
                        in case get_group sy (groups s1) t of
                             Inl err \<Rightarrow> Inl err
                           | Inr (grp, gc, _) \<Rightarrow>
                               (let s2 = s1\<lparr>groups := gc\<rparr>;
                                    l7 = add l6 grp [''group'']
                                in if is_link t
                                   then Inr (add l7 ('' -> '' @ readlink t)
                                               [''link'', if exists t then ''good'' else ''bad''], s2)
                                   else
                                     (let l8 = (case infostring t of
                                                  None \<Rightarrow> l7
                                                | Some info \<Rightarrow>
                                                    if display_size_in_status_bar e \<and> info \<noteq> []
                                                    then add l7 info [] else l7);
                                          l9 = add_space l8
                                      in Inr (add l9 (strftime_localtime sy timeformat (st_mtime st))
                                                [''mtime''], s2)))))))"

subsection \<open>The right part\<close>

text \<open>
  \<open>'{0:0>.0f}'.format(q)\<close> for a number that is not negative: without a width, the fill
  character and the alignment add nothing. The Python float is read as a real number, so
  that \<open>100.0 * pos / max_pos\<close> is the exact quotient.
\<close>

definition format_0f :: "real \<Rightarrow> string" where
  "format_0f q = str_nat (nat (round_half_even q))"

text \<open>
  The summary of \<open>_get_right_part\<close> (the statement \<open>if target.marked_items\<close> with both
  branches), given the right side of the bar. \<open>len(target.files)\<close> raises when
  \<open>target.files\<close> is \<open>None\<close>.
\<close>

definition right_summary :: "system \<Rightarrow> directory \<Rightarrow> barside \<Rightarrow> error + barside" where
  "right_summary sy t right =
     (if marked_items t \<noteq> [] then
        (case files t of
           None \<Rightarrow> Inl TypeError
         | Some fs \<Rightarrow>
             (let r1 = (if length (marked_items t) = length fs
                        then add right (human_readable sy (disk_usage t)) []
                        else add right (human_readable sy
                               (Some (sum_list (map fsize (filter is_file (marked_items t)))))) [])
              in Inr (add r1 ('' / '' @ str_nat (length (marked_items t))) [])))
      else
        Inr (add (add (add right (human_readable sy (disk_usage t)) [])
                    '', '' [''space''])
               (human_readable sy (Some (get_free_space sy (mount_path t)))) []))"

text \<open>
  The indicator of \<open>_get_right_part\<close> (the last statement, with \<open>pos\<close>, \<open>max_pos\<close> and
  \<open>base\<close> as the source sets them), given the right side of the bar.
\<close>

definition scroll_indicator :: "directory \<Rightarrow> column \<Rightarrow> barside \<Rightarrow> barside" where
  "scroll_indicator t c right =
     (let pos = scroll_begin t;
          max_pos = int (len t) - int (hei c);
          base = ''scroll''
      in if marked_items t \<noteq> [] then add right ''Mrk'' [base, ''marked'']
         else if 0 < max_pos then
           (if pos = 0 then add right ''Top'' [base, ''top'']
            else if max_pos \<le> int pos then add right ''Bot'' [base, ''bot'']
            else add right (format_0f (100 * real pos / real_of_int max_pos) @ ''%'')
                   [base, ''percentage''])
         else add right ''All'' [base, ''all''])"

text \<open>\<open>_get_right_part\<close>, given the right side of the bar.\<close>

definition get_right_part :: "system \<Rightarrow> statusbar \<Rightarrow> barside \<Rightarrow> error + barside" where
  "get_right_part sy s right =
     (case column s of
        None \<Rightarrow> Inr right
      | Some c \<Rightarrow>
          (case target c of
             None \<Rightarrow> Inr right
           | Some t \<Rightarrow>
               if \<not> accessible t \<or> (is_directory t \<and> files t = None) then Inr right
               else
                 (case right_summary sy t right of
                    Inl err \<Rightarrow> Inl err
                  | Inr r2 \<Rightarrow> Inr (scroll_indicator t c (add r2 ''  '' [''space''])))))"

subsection \<open>Drawing\<close>

text \<open>\<open>_calc_bar\<close>: both sides start empty.\<close>

definition calc_bar :: "system \<Rightarrow> environment \<Rightarrow> statusbar \<Rightarrow> error + statusbar" where
  "calc_bar sy e s =
     (case get_left_part sy e s [] of
        Inl err \<Rightarrow> Inl err
      | Inr (left, s1) \<Rightarrow>
          (case get_right_part sy s1 [] of
             Inl err \<Rightarrow> Inl err
           | Inr right \<Rightarrow>
               Inr (s1\<lparr>result := Some (combine (shrink_by_removing sy (wid s1) (left, right)))\<rparr>)))"

text \<open>
  \<open>_print_result\<close>: the calls on the window, in order. \<open>move\<close>, \<open>color\<close>, \<open>addstr\<close> and
  \<open>color_reset\<close> are taken to return.
\<close>

definition print_result :: "fragment list \<Rightarrow> call list" where
  "print_result res =
     Move 0 0 # concat (map (\<lambda>part. [Color (lst part), Addstr (fstring part)]) res) @ [ColorReset]"

text \<open>
  The value that \<open>draw\<close> compares with \<open>old_mtime\<close>: the modification time of the
  current file, and \<open>-1\<close> when reading it raises.
\<close>

definition observed_mtime :: "environment \<Rightarrow> real" where
  "observed_mtime e =
     (case cf e of
        None \<Rightarrow> - 1
      | Some f \<Rightarrow> (case stat f of None \<Rightarrow> - 1 | Some st \<Rightarrow> st_mtime st))"

text \<open>
  The block of \<open>draw\<close> under \<open>if self.need_redraw\<close>: the bar is computed and printed.
  The loop of \<open>_print_result\<close> over \<open>None\<close> raises.
\<close>

definition recompute :: "system \<Rightarrow> environment \<Rightarrow> statusbar \<Rightarrow> error + (statusbar \<times> call list)" where
  "recompute sy e s =
     (case calc_bar sy e (s\<lparr>need_redraw := False\<rparr>) of
        Inl err \<Rightarrow> Inl err
      | Inr s1 \<Rightarrow>
          (case result s1 of
             None \<Rightarrow> Inl TypeError
           | Some res \<Rightarrow> Inr (s1, print_result res)))"

text \<open>
  The part of \<open>draw\<close> from the reading of the modification time on, reached when no
  hint and no message is drawn.
\<close>

definition draw_normal :: "system \<Rightarrow> environment \<Rightarrow> statusbar \<Rightarrow> error + (statusbar \<times> call list)" where
  "draw_normal sy e s =
     (let mtime = observed_mtime e;
          s1 = (if \<not> truthy_list (result s) then s\<lparr>need_redraw := True\<rparr> else s);
          s2 = (if truthy_int (old_du s1) \<and> \<not> truthy_int (disk_usage (cwd e))
                then s1\<lparr>old_du := disk_usage (cwd e), need_redraw := True\<rparr> else s1);
          s3 = (if old_cf s2 \<noteq> map_option oid (cf e)
                then s2\<lparr>old_cf := map_option oid (cf e), need_redraw := True\<rparr> else s2);
          s4 = (if old_mtime s3 \<noteq> Some mtime
                then s3\<lparr>old_mtime := Some mtime, need_redraw := True\<rparr> else s3)
      in if need_redraw s4 then recompute sy e s4 else Inr (s4, []))"

text \<open>
  \<open>draw\<close>: the widget after the call and the calls on the window, in order, or the
  exception that leaves the method.
\<close>

definition draw :: "system \<Rightarrow> environment \<Rightarrow> statusbar \<Rightarrow> error + (statusbar \<times> call list)" where
  "draw sy e s =
     (if truthy_hint (hint s) \<and> is_str (hint s) then
        (let s1 = (if old_hint s \<noteq> hint s then s\<lparr>need_redraw := True\<rparr> else s)
         in if need_redraw s1 then Inr (s1, draw_hint sy s1) else Inr (s1, []))
      else
        (let s1 = (if truthy_hint (old_hint s) \<and> \<not> truthy_hint (hint s)
                   then s\<lparr>old_hint := HNone, need_redraw := True\<rparr> else s)
         in case msg s1 of
              None \<Rightarrow> draw_normal sy e s1
            | Some m \<Rightarrow>
                if is_alive (now e) m then
                  (case draw_message sy s1 m of
                     Inl err \<Rightarrow> Inl err
                   | Inr cs \<Rightarrow> Inr (s1, cs))
                else draw_normal sy e (s1\<lparr>msg := None, need_redraw := True\<rparr>)))"

subsection \<open>Notions of the statements\<close>

text \<open>The number that a string of decimal digits denotes, to check \<open>str_nat\<close> against.\<close>

definition digit_value :: "char \<Rightarrow> nat" where
  "digit_value c = of_char c - 48"

definition decimal_value :: "string \<Rightarrow> nat" where
  "decimal_value t = foldl (\<lambda>a c. 10 * a + digit_value c) 0 t"

text \<open>
  The ids for which the operating system is asked by the second of two lookups of the
  owner of the same file, the second one with the dictionary that the first one left.
\<close>

definition second_lookup_asks :: "system \<Rightarrow> name_cache \<Rightarrow> fsobject \<Rightarrow> nat list option" where
  "second_lookup_asks sy cache t =
     (case get_owner sy cache t of
        Inl err \<Rightarrow> None
      | Inr (name, cache1, asked1) \<Rightarrow>
          (case get_owner sy cache1 t of
             Inl err \<Rightarrow> None
           | Inr (name2, cache2, asked2) \<Rightarrow> Some asked2))"

text \<open>
  The listing of the column's directory can be counted: \<open>_get_right_part\<close> does not
  reach \<open>len(target.files)\<close> with \<open>target.files\<close> being \<open>None\<close>.
\<close>

definition listing_readable :: "statusbar \<Rightarrow> bool" where
  "listing_readable s =
     (case column s of
        None \<Rightarrow> True
      | Some c \<Rightarrow>
          (case target c of
             None \<Rightarrow> True
           | Some t \<Rightarrow> is_directory t \<or> files t \<noteq> None \<or> marked_items t = []))"

text \<open>
  The calls that show a message, as the specification words them: the line is cleared,
  the style follows the severity, and the text is written from column 0, cut at the
  width of the line.
\<close>

definition message_calls :: "statusbar \<Rightarrow> message \<Rightarrow> call list" where
  "message_calls s m =
     [Erase,
      Color [''in_statusbar'', ''message'', if bad m then ''bad'' else ''good''],
      Addnstr 0 0 (msg_text m) (wid s)]"

text \<open>The window rejects the write of the message.\<close>

definition message_rejected :: "system \<Rightarrow> statusbar \<Rightarrow> message \<Rightarrow> bool" where
  "message_rejected sy s m = addnstr_raises sy 0 0 (msg_text m) (wid s)"

text \<open>
  The calls that paint a bar, as the specification words the renderer: the cursor moves
  to column 0, every fragment is written with its style, in order, and the style is
  reset.
\<close>

definition painted :: "fragment list \<Rightarrow> call list" where
  "painted res =
     Move 0 0 # concat (map (\<lambda>part. [Color (lst part), Addstr (fstring part)]) res) @ [ColorReset]"



text \<open>The first test of \<open>draw\<close>: \<open>self.hint and isinstance(self.hint, str)\<close>.\<close>

definition hint_active :: "statusbar \<Rightarrow> bool" where
  "hint_active s = (truthy_hint (hint s) \<and> is_str (hint s))"

text \<open>A message is held and \<open>is_alive\<close> answers yes when \<open>draw\<close> asks.\<close>

definition message_alive :: "environment \<Rightarrow> statusbar \<Rightarrow> bool" where
  "message_alive e s = (case msg s of None \<Rightarrow> False | Some m \<Rightarrow> is_alive (now e) m)"

text \<open>
  The widget when \<open>draw\<close> reaches the reading of the modification time: the hint is
  not active, and a message that is held is not alive and is dropped.
\<close>

definition before_normal :: "statusbar \<Rightarrow> statusbar" where
  "before_normal s =
     (let s1 = (if truthy_hint (old_hint s) \<and> \<not> truthy_hint (hint s)
                then s\<lparr>old_hint := HNone, need_redraw := True\<rparr> else s)
      in case msg s1 of
           None \<Rightarrow> s1
         | Some m \<Rightarrow> s1\<lparr>msg := None, need_redraw := True\<rparr>)"

text \<open>
  One of the tests of \<open>draw\<close> between the reading of the modification time and
  \<open>if self.need_redraw\<close> sets the flag, or the flag is set before.
\<close>

definition redraw_forced :: "environment \<Rightarrow> statusbar \<Rightarrow> bool" where
  "redraw_forced e s =
     (need_redraw s \<or> \<not> truthy_list (result s)
      \<or> (truthy_int (old_du s) \<and> \<not> truthy_int (disk_usage (cwd e)))
      \<or> old_cf s \<noteq> map_option oid (cf e)
      \<or> old_mtime s \<noteq> Some (observed_mtime e))"

text \<open>The values that these tests store in \<open>old_du\<close>, \<open>old_cf\<close> and \<open>old_mtime\<close>.\<close>

definition fingerprint_stored :: "environment \<Rightarrow> statusbar \<Rightarrow> statusbar" where
  "fingerprint_stored e s =
     s\<lparr>old_du := (if truthy_int (old_du s) \<and> \<not> truthy_int (disk_usage (cwd e))
                  then disk_usage (cwd e) else old_du s),
       old_cf := map_option oid (cf e),
       old_mtime := Some (observed_mtime e)\<rparr>"


text \<open>
  No overlay is shown, nothing is pending and a bar is cached that is not empty.
\<close>

definition at_rest :: "statusbar \<Rightarrow> bool" where
  "at_rest s =
     (\<not> hint_active s \<and> \<not> (truthy_hint (old_hint s) \<and> \<not> truthy_hint (hint s))
      \<and> msg s = None \<and> \<not> need_redraw s \<and> truthy_list (result s))"

text \<open>The second of two calls of \<open>draw\<close> that read the same values.\<close>

definition second_draw :: "system \<Rightarrow> environment \<Rightarrow> statusbar \<Rightarrow> error + (statusbar \<times> call list)" where
  "second_draw sy e s =
     (case draw sy e s of
        Inl err \<Rightarrow> Inl err
      | Inr (s1, cs) \<Rightarrow> draw sy e s1)"

text \<open>
  The indicator as the specification words it, from whether items are marked, the number
  of items, the height of the column and the scroll offset.
\<close>

definition spec_indicator :: "bool \<Rightarrow> int \<Rightarrow> int \<Rightarrow> int \<Rightarrow> string" where
  "spec_indicator any_marked item_count column_height offset =
     (let max_scroll = item_count - column_height
      in if any_marked then ''Mrk''
         else if max_scroll \<le> 0 then ''All''
         else if offset = 0 then ''Top''
         else if max_scroll \<le> offset then ''Bot''
         else str_nat (nat (round_half_even (100 * real_of_int offset / real_of_int max_scroll))) @ ''%'')"






subsection \<open>Concrete inputs\<close>

text \<open>
  A system that knows the user \<open>root\<close> and the group \<open>wheel\<close> only, whose window
  accepts every write and whose bar is never shrunk; the process runs with the real user
  id 1000 and the effective user id 0.
\<close>

definition example_system :: system where
  "example_system =
     \<lparr>getpwuid = (\<lambda>i. if i = 0 then Some ''root'' else None),
      getgrgid = (\<lambda>i. if i = 0 then Some ''wheel'' else None),
      ruid = 1000, euid = 0,
      strftime_localtime = (\<lambda>f t. ''2010-01-01 00:00''),
      human_readable = (\<lambda>n. case n of None \<Rightarrow> ''?'' | Some k \<Rightarrow> if k < 1024 then ''small'' else ''big''),
      get_free_space = (\<lambda>p. 0),
      addnstr_raises = (\<lambda>y x t n. False),
      shrink_by_removing = (\<lambda>w b. b)\<rparr>"

definition example_stat :: stat_result where
  "example_stat = \<lparr>st_uid = 1000, st_gid = 1000, st_nlink = 1, st_mtime = 0\<rparr>"

definition example_file :: fsobject where
  "example_file =
     \<lparr>oid = 1, stat = Some example_stat, permission_string = ''-rw-r--r--'',
      is_link = False, exists = True, readlink = [], infostring = Some ''4 K'',
      fsize = 4096, is_file = True\<rparr>"

definition root_stat :: stat_result where
  "root_stat = \<lparr>st_uid = 0, st_gid = 0, st_nlink = 2, st_mtime = 0\<rparr>"

definition root_file :: fsobject where
  "root_file = example_file\<lparr>oid := 2, stat := Some root_stat\<rparr>"

text \<open>
  A loaded directory of two files with nothing marked, the widget as the class
  attributes set it, on the main column, and what the first call of \<open>draw\<close> reads.
\<close>

definition example_dir :: directory where
  "example_dir =
     \<lparr>accessible = True, is_directory = True, files = Some [example_file, root_file],
      marked_items = [], scroll_begin = 0, len = 2, disk_usage = None,
      mount_path = ''/'', pointed_obj = Some example_file\<rparr>"

definition example_bar :: statusbar where
  "example_bar =
     \<lparr>owners = Map.empty, groups = Map.empty, hint = HNone, msg = None, old_cf = None,
      old_mtime = None, old_du = None, old_hint = HNone, result = None,
      need_redraw = False, column = Some \<lparr>target = Some example_dir, hei = 10\<rparr>,
      wid = 80, x_pos = 0\<rparr>"

definition example_env :: environment where
  "example_env =
     \<lparr>now = 10, cf = Some example_file, cwd = example_dir, at_level0 = example_dir,
      display_size_in_status_bar = True\<rparr>"

text \<open>The bar that the first call of \<open>draw\<close> computes, and the widget after the call.\<close>

definition example_result :: "fragment list" where
  "example_result =
     [\<lparr>fstring = ''-rw-r--r--'', lst = [''permissions'', ''good'']\<rparr>,
      \<lparr>fstring = '' '', lst = [''space'']\<rparr>,
      \<lparr>fstring = ''1'', lst = [''nlink'']\<rparr>,
      \<lparr>fstring = '' '', lst = [''space'']\<rparr>,
      \<lparr>fstring = ''1000'', lst = [''owner'']\<rparr>,
      \<lparr>fstring = '' '', lst = [''space'']\<rparr>,
      \<lparr>fstring = ''1000'', lst = [''group'']\<rparr>,
      \<lparr>fstring = ''4 K'', lst = []\<rparr>,
      \<lparr>fstring = '' '', lst = [''space'']\<rparr>,
      \<lparr>fstring = ''2010-01-01 00:00'', lst = [''mtime'']\<rparr>,
      \<lparr>fstring = ''?'', lst = []\<rparr>,
      \<lparr>fstring = '', '', lst = [''space'']\<rparr>,
      \<lparr>fstring = ''small'', lst = []\<rparr>,
      \<lparr>fstring = ''  '', lst = [''space'']\<rparr>,
      \<lparr>fstring = ''All'', lst = [''scroll'', ''all'']\<rparr>]"

definition drawn_bar :: statusbar where
  "drawn_bar = example_bar\<lparr>old_cf := Some 1, old_mtime := Some 0, result := Some example_result\<rparr>"






text \<open>
  The directory once its disk usage is known, what \<open>draw\<close> then reads, and the widget of
  the first call, whose column shows that directory.
\<close>

definition du_dir :: directory where
  "du_dir = example_dir\<lparr>disk_usage := Some 8192\<rparr>"

definition du_env :: environment where
  "du_env = example_env\<lparr>cwd := du_dir, at_level0 := du_dir\<rparr>"

definition du_bar :: statusbar where
  "du_bar = drawn_bar\<lparr>column := Some \<lparr>target = Some du_dir, hei = 10\<rparr>\<rparr>"

text \<open>A widget that holds a message created at time 8 for 4 seconds, with a bar drawn before.\<close>

definition alive_message_bar :: statusbar where
  "alive_message_bar = drawn_bar\<lparr>msg := Some (Message 8 ''copied'' 4 False)\<rparr>"




text \<open>A file of a given identity and size, and a directory of five files of which three are marked.\<close>

definition sized_file :: "nat \<Rightarrow> int \<Rightarrow> fsobject" where
  "sized_file i sz = example_file\<lparr>oid := i, fsize := sz\<rparr>"

definition five_files :: "fsobject list" where
  "five_files = [sized_file 1 10, sized_file 2 20, sized_file 3 30, sized_file 4 40, sized_file 5 50]"

definition marked_dir :: directory where
  "marked_dir =
     example_dir\<lparr>files := Some five_files,
       marked_items := [sized_file 1 10, sized_file 2 20, sized_file 3 30],
       len := 5, disk_usage := Some 150\<rparr>"

definition all_marked_dir :: directory where
  "all_marked_dir = marked_dir\<lparr>marked_items := five_files\<rparr>"







text \<open>A window that rejects every write of a length-limited string.\<close>

definition full_window_system :: system where
  "full_window_system = example_system\<lparr>addnstr_raises := (\<lambda>y x t n. True)\<rparr>"

text \<open>The calls of the first call of \<open>draw\<close>, which paint the bar of the example.\<close>

definition example_calls :: "call list" where
  "example_calls =
     [Move 0 0, Color [''permissions'', ''good''], Addstr ''-rw-r--r--'',
      Color [''space''], Addstr '' '', Color [''nlink''], Addstr ''1'',
      Color [''space''], Addstr '' '', Color [''owner''], Addstr ''1000'',
      Color [''space''], Addstr '' '', Color [''group''], Addstr ''1000'',
      Color [], Addstr ''4 K'', Color [''space''], Addstr '' '',
      Color [''mtime''], Addstr ''2010-01-01 00:00'', Color [], Addstr ''?'',
      Color [''space''], Addstr '', '', Color [], Addstr ''small'',
      Color [''space''], Addstr ''  '', Color [''scroll'', ''all''],
      Addstr ''All'', ColorReset]"




section \<open>Properties\<close>

subsection \<open>Decimal strings\<close>

lemma digit_value_digit: "d < 10 \<Longrightarrow> digit_value (digit d) = d"
  by (simp add: digit_def digit_value_def)

lemma decimal_value_snoc: "decimal_value (t @ [c]) = 10 * decimal_value t + digit_value c"
  by (simp add: decimal_value_def)

lemma decimal_value_str_nat: "decimal_value (str_nat n) = n"
proof (induction n rule: str_nat.induct)
  case (1 n)
  show ?case
  proof (cases "n < 10")
    case True
    then show ?thesis
      by (subst str_nat.simps) (simp add: decimal_value_def digit_value_digit)
  next
    case False
    then have "decimal_value (str_nat (n div 10)) = n div 10"
      using 1 by simp
    with False show ?thesis
      by (subst str_nat.simps) (simp add: decimal_value_snoc digit_value_digit)
  qed
qed

lemma str_nat_1000: "str_nat 1000 = ''1000''"
  by code_simp

subsection \<open>Names of owners and groups\<close>

text \<open>
  C3, as the code has it. When the id of the owner is not in the dictionary and the
  operating system has no name for it, \<open>_get_owner\<close> returns the decimal string of the
  id, asks the operating system once and leaves the dictionary as it was: the fallback is
  not stored, so a repeated lookup is the same call and asks again. When the operating
  system has a name, the name is stored and the next lookup asks nothing. \<open>_get_group\<close>
  does the same with the id of the group.
\<close>

theorem name_fallback_not_cached:
  assumes "stat t = Some st"
  shows "(oc (st_uid st) = None \<and> getpwuid sy (st_uid st) = None \<longrightarrow>
            get_owner sy oc t = Inr (str_nat (st_uid st), oc, [st_uid st]))
       \<and> (gc (st_gid st) = None \<and> getgrgid sy (st_gid st) = None \<longrightarrow>
            get_group sy gc t = Inr (str_nat (st_gid st), gc, [st_gid st]))
       \<and> (oc (st_uid st) = None \<and> getpwuid sy (st_uid st) = Some name \<longrightarrow>
            get_owner sy oc t = Inr (name, oc(st_uid st \<mapsto> name), [st_uid st])
          \<and> get_owner sy (oc(st_uid st \<mapsto> name)) t = Inr (name, oc(st_uid st \<mapsto> name), []))
       \<and> (gc (st_gid st) = None \<and> getgrgid sy (st_gid st) = Some name \<longrightarrow>
            get_group sy gc t = Inr (name, gc(st_gid st \<mapsto> name), [st_gid st])
          \<and> get_group sy (gc(st_gid st \<mapsto> name)) t = Inr (name, gc(st_gid st \<mapsto> name), []))"
  using assms by (simp add: get_owner_def get_group_def Let_def)

theorem name_fallback_not_cached_witness:
  "stat example_file = Some example_stat
   \<and> get_owner example_system Map.empty example_file = Inr (''1000'', Map.empty, [1000])
   \<and> get_group example_system Map.empty example_file = Inr (''1000'', Map.empty, [1000])
   \<and> get_owner example_system Map.empty root_file = Inr (''root'', [0 \<mapsto> ''root''], [0])
   \<and> get_owner example_system [0 \<mapsto> ''root''] root_file = Inr (''root'', [0 \<mapsto> ''root''], [])
   \<and> get_group example_system Map.empty root_file = Inr (''wheel'', [0 \<mapsto> ''wheel''], [0])
   \<and> get_group example_system [0 \<mapsto> ''wheel''] root_file = Inr (''wheel'', [0 \<mapsto> ''wheel''], [])"
  using name_fallback_not_cached [of example_file example_stat "Map.empty" example_system "Map.empty" "''root''"]
        name_fallback_not_cached [of root_file root_stat "Map.empty" example_system "Map.empty" "''root''"]
        name_fallback_not_cached [of root_file root_stat "Map.empty" example_system "Map.empty" "''wheel''"]
  by (simp add: example_file_def example_stat_def example_system_def root_file_def root_stat_def
        get_owner_def get_group_def Let_def str_nat_1000)

text \<open>
  C3, as the claim has it, fails: the owner 1000 has no name, and the second lookup asks
  the operating system for it again.
\<close>

theorem name_fallback_cached_counterexample:
  "second_lookup_asks example_system Map.empty example_file = Some [1000]
   \<and> second_lookup_asks example_system Map.empty example_file \<noteq> Some []"
  by (simp add: second_lookup_asks_def get_owner_def example_file_def example_stat_def
        example_system_def Let_def)

subsection \<open>The bar is computed without an exception\<close>

lemma get_owner_Inr:
  "stat t = Some st \<Longrightarrow> \<exists>name oc asked. get_owner sy cache t = Inr (name, oc, asked)"
  by (simp add: get_owner_def Let_def split: option.splits)

lemma get_group_Inr:
  "stat t = Some st \<Longrightarrow> \<exists>name gc asked. get_group sy cache t = Inr (name, gc, asked)"
  by (simp add: get_group_def Let_def split: option.splits)

lemma get_left_part_Inr:
  "\<exists>l oc gc. get_left_part sy e s left = Inr (l, s\<lparr>owners := oc, groups := gc\<rparr>)"
proof (cases "left_target e s")
  case None
  then have "get_left_part sy e s left = Inr (left, s)"
    by (simp add: get_left_part_def)
  then have "get_left_part sy e s left = Inr (left, s\<lparr>owners := owners s, groups := groups s\<rparr>)"
    by simp
  then show ?thesis by blast
next
  case (Some t)
  show ?thesis
  proof (cases "stat t")
    case None
    with Some have "get_left_part sy e s left = Inr (left, s)"
      by (simp add: get_left_part_def)
    then have "get_left_part sy e s left = Inr (left, s\<lparr>owners := owners s, groups := groups s\<rparr>)"
      by simp
    then show ?thesis by blast
  next
    case (Some st)
    obtain name oc asked where o: "get_owner sy (owners s) t = Inr (name, oc, asked)"
      using get_owner_Inr [OF Some] by blast
    obtain grp gc asked2 where g: "get_group sy (groups s) t = Inr (grp, gc, asked2)"
      using get_group_Inr [OF Some] by blast
    from \<open>left_target e s = Some t\<close> Some o g
    have "\<exists>l. get_left_part sy e s left = Inr (l, s\<lparr>owners := oc, groups := gc\<rparr>)"
      by (simp add: get_left_part_def Let_def)
    then show ?thesis by blast
  qed
qed

lemma right_summary_Inr:
  "files t \<noteq> None \<or> marked_items t = [] \<Longrightarrow> \<exists>r. right_summary sy t right = Inr r"
  by (cases "files t") (simp_all add: right_summary_def Let_def)


lemma listing_readable_upd [simp]:
  "listing_readable (s\<lparr>owners := oc\<rparr>) = listing_readable s"
  "listing_readable (s\<lparr>groups := gc\<rparr>) = listing_readable s"
  "listing_readable (s\<lparr>need_redraw := b\<rparr>) = listing_readable s"
  "listing_readable (s\<lparr>msg := m\<rparr>) = listing_readable s"
  "listing_readable (s\<lparr>old_hint := h\<rparr>) = listing_readable s"
  "listing_readable (s\<lparr>old_cf := c\<rparr>) = listing_readable s"
  "listing_readable (s\<lparr>old_mtime := mt\<rparr>) = listing_readable s"
  "listing_readable (s\<lparr>old_du := du\<rparr>) = listing_readable s"
  "listing_readable (s\<lparr>hint := h\<rparr>) = listing_readable s"
  "listing_readable (s\<lparr>result := r\<rparr>) = listing_readable s"
  by (simp_all add: listing_readable_def)



lemma draw_hint_path:
  "hint_active s \<Longrightarrow>
     draw sy e s =
       (if old_hint s \<noteq> hint s \<or> need_redraw s
        then Inr (s\<lparr>need_redraw := True\<rparr>, draw_hint sy s) else Inr (s, []))"
  by (auto simp add: draw_def hint_active_def draw_hint_def Let_def)

lemma draw_message_path:
  "\<not> hint_active s \<Longrightarrow> msg s = Some m \<Longrightarrow> is_alive (now e) m \<Longrightarrow>
     draw sy e s =
       (if message_rejected sy s m then Inl CursesError
        else if truthy_hint (old_hint s) \<and> \<not> truthy_hint (hint s)
        then Inr (s\<lparr>old_hint := HNone, need_redraw := True\<rparr>, message_calls s m)
        else Inr (s, message_calls s m))"
  by (auto simp add: draw_def hint_active_def draw_message_def message_calls_def
        message_rejected_def Let_def)

lemma draw_normal_path:
  "\<not> hint_active s \<Longrightarrow> \<not> message_alive e s \<Longrightarrow>
     draw sy e s = draw_normal sy e (before_normal s)"
  by (auto simp add: draw_def hint_active_def message_alive_def before_normal_def Let_def
      split: option.splits)

lemma draw_normal_skip:
  "\<not> redraw_forced e s \<Longrightarrow> draw_normal sy e s = Inr (s, [])"
  by (auto simp add: draw_normal_def redraw_forced_def Let_def)

lemma recompute_cong:
  "s\<lparr>need_redraw := False\<rparr> = s'\<lparr>need_redraw := False\<rparr> \<Longrightarrow> recompute sy e s = recompute sy e s'"
  by (simp add: recompute_def)

lemma draw_normal_forced:
  assumes "redraw_forced e s"
  shows "draw_normal sy e s = recompute sy e (fingerprint_stored e s)"
proof -
  define s1 where "s1 = (if \<not> truthy_list (result s) then s\<lparr>need_redraw := True\<rparr> else s)"
  define s2 where "s2 = (if truthy_int (old_du s1) \<and> \<not> truthy_int (disk_usage (cwd e))
                then s1\<lparr>old_du := disk_usage (cwd e), need_redraw := True\<rparr> else s1)"
  define s3 where "s3 = (if old_cf s2 \<noteq> map_option oid (cf e)
                then s2\<lparr>old_cf := map_option oid (cf e), need_redraw := True\<rparr> else s2)"
  define s4 where "s4 = (if old_mtime s3 \<noteq> Some (observed_mtime e)
                then s3\<lparr>old_mtime := Some (observed_mtime e), need_redraw := True\<rparr> else s3)"
  have d: "draw_normal sy e s = (if need_redraw s4 then recompute sy e s4 else Inr (s4, []))"
    by (simp add: draw_normal_def Let_def s1_def s2_def s3_def s4_def)
  have n: "need_redraw s4"
    using assms by (auto simp add: redraw_forced_def s1_def s2_def s3_def s4_def)
  have "s4\<lparr>need_redraw := False\<rparr> = (fingerprint_stored e s)\<lparr>need_redraw := False\<rparr>"
    by (auto simp add: fingerprint_stored_def s1_def s2_def s3_def s4_def)
  then have "recompute sy e s4 = recompute sy e (fingerprint_stored e s)"
    by (rule recompute_cong)
  with d n show ?thesis by simp
qed

subsection \<open>The first call of draw\<close>

lemmas example_defs = example_system_def example_stat_def example_file_def root_stat_def
  root_file_def example_dir_def example_bar_def example_env_def

lemmas code_defs = draw_def draw_normal_def recompute_def calc_bar_def get_left_part_def
  get_right_part_def right_summary_def scroll_indicator_def left_target_def get_owner_def
  get_group_def observed_mtime_def print_result_def add_def add_space_def combine_def
  getuid_def timeformat_def draw_message_def draw_hint_def is_alive_def Message_def Let_def

lemma str_nat_1: "str_nat (Suc 0) = ''1''" by code_simp

lemma first_draw: "draw example_system example_env example_bar = Inr (drawn_bar, print_result example_result)"
  by (simp add: example_defs code_defs drawn_bar_def example_result_def str_nat_1000 str_nat_1)

subsection \<open>What the paths of draw leave unchanged\<close>


lemma before_normal_fields:
  "msg (before_normal s) = None" "hint (before_normal s) = hint s"
  "result (before_normal s) = result s" "column (before_normal s) = column s"
  "old_cf (before_normal s) = old_cf s" "old_mtime (before_normal s) = old_mtime s"
  "old_du (before_normal s) = old_du s" "wid (before_normal s) = wid s"
  "listing_readable (before_normal s) = listing_readable s"
  by (simp_all add: before_normal_def Let_def listing_readable_def split: option.splits)


lemma fingerprint_stored_fields:
  "msg (fingerprint_stored e s) = msg s" "hint (fingerprint_stored e s) = hint s"
  "old_hint (fingerprint_stored e s) = old_hint s"
  "old_cf (fingerprint_stored e s) = map_option oid (cf e)"
  "old_mtime (fingerprint_stored e s) = Some (observed_mtime e)"
  "listing_readable (fingerprint_stored e s) = listing_readable s"
  by (simp_all add: fingerprint_stored_def listing_readable_def)

subsection \<open>When draw computes the bar and when it does nothing\<close>

lemma before_normal_same:
  "\<not> need_redraw (before_normal s) \<Longrightarrow> before_normal s = s \<and> msg s = None"
  by (auto simp add: before_normal_def Let_def split: option.splits if_splits)

lemma before_normal_old_hint:
  "\<not> (truthy_hint (old_hint (before_normal s)) \<and> \<not> truthy_hint (hint (before_normal s)))"
  by (auto simp add: before_normal_def Let_def split: option.splits)

lemma fingerprint_stored_more:
  "need_redraw (fingerprint_stored e s) = need_redraw s"
  "result (fingerprint_stored e s) = result s"
  "column (fingerprint_stored e s) = column s"
  "wid (fingerprint_stored e s) = wid s"
  "old_du (fingerprint_stored e s) =
     (if truthy_int (old_du s) \<and> \<not> truthy_int (disk_usage (cwd e))
      then disk_usage (cwd e) else old_du s)"
  by (simp_all add: fingerprint_stored_def)

lemma draw_skips:
  assumes "\<not> hint_active s" "\<not> message_alive e s" "\<not> redraw_forced e (before_normal s)"
  shows "draw sy e s = Inr (s, [])"
proof -
  have "\<not> need_redraw (before_normal s)"
    using assms(3) by (simp add: redraw_forced_def)
  then have "before_normal s = s" by (simp add: before_normal_same)
  then show ?thesis
    using assms draw_normal_path [of s e sy] draw_normal_skip [of e s sy] by simp
qed


lemma at_rest_before_normal: "at_rest s \<Longrightarrow> before_normal s = s"
  by (auto simp add: at_rest_def before_normal_def)

lemma draw_at_rest:
  assumes "at_rest s"
    "\<not> (truthy_int (old_du s) \<and> \<not> truthy_int (disk_usage (cwd e)))"
    "old_cf s = map_option oid (cf e)" "old_mtime s = Some (observed_mtime e)"
  shows "draw sy e s = Inr (s, [])"
proof -
  have b: "before_normal s = s" using assms(1) by (rule at_rest_before_normal)
  have "\<not> redraw_forced e s"
    using assms by (simp add: redraw_forced_def at_rest_def)
  moreover have "\<not> hint_active s" "\<not> message_alive e s"
    using assms(1) by (simp_all add: at_rest_def message_alive_def)
  ultimately show ?thesis using draw_skips [of s e sy] b by simp
qed

lemma old_du_stays_falsy:
  assumes "\<not> truthy_int (old_du s)" "draw sy e s = Inr (s', cs)"
  shows "\<not> truthy_int (old_du s')"
proof (cases "hint_active s")
  case True
  with assms show ?thesis by (auto simp add: draw_hint_path split: if_splits)
next
  case False
  show ?thesis
  proof (cases "message_alive e s")
    case True
    then obtain m where "msg s = Some m" "is_alive (now e) m"
      by (auto simp add: message_alive_def split: option.splits)
    with False assms show ?thesis by (auto simp add: draw_message_path split: if_splits)
  next
    case na: False
    show ?thesis
    proof (cases "redraw_forced e (before_normal s)")
      case True
      show ?thesis
      proof -
        have d: "draw sy e s = recompute sy e (fingerprint_stored e (before_normal s))"
          using False na True draw_normal_path [of s e sy]
            draw_normal_forced [of e "before_normal s" sy] by simp
        obtain s1 where c: "calc_bar sy e ((fingerprint_stored e (before_normal s))\<lparr>need_redraw := False\<rparr>) = Inr s1"
          and s': "s' = s1"
          using assms(2) d by (auto simp add: recompute_def split: sum.splits option.splits)
        have "old_du s1 = old_du (fingerprint_stored e (before_normal s))"
          using c get_left_part_Inr [of sy e "(fingerprint_stored e (before_normal s))\<lparr>need_redraw := False\<rparr>" "[]"]
          by (auto simp add: calc_bar_def split: sum.splits)
        with assms(1) s' show ?thesis
          by (simp add: fingerprint_stored_more before_normal_fields)
      qed
    next
      case nf: False
      from draw_skips [OF False na nf, of sy] assms show ?thesis by simp
    qed
  qed
qed

lemma disk_usage_never_forces:
  assumes "at_rest s" "\<not> truthy_int (old_du s)"
    "old_cf s = map_option oid (cf e)" "old_mtime s = Some (observed_mtime e)"
  shows "draw sy e s = Inr (s, [])"
  using assms by (simp add: draw_at_rest)

subsection \<open>The disk usage of the directory\<close>

text \<open>
  C1 fails on the code. The first call of \<open>draw\<close>, while the disk usage of the directory
  is not known, computes the bar. When the disk usage is known at the next call and
  nothing else has changed, \<open>draw\<close> does not compute the bar and writes nothing.
\<close>

theorem disk_usage_available_no_redraw:
  "\<not> truthy_int (disk_usage (cwd example_env))
   \<and> draw example_system example_env example_bar = Inr (drawn_bar, print_result example_result)
   \<and> truthy_int (disk_usage (cwd du_env))
   \<and> draw example_system du_env du_bar = Inr (du_bar, [])"
  by (simp add: example_defs code_defs drawn_bar_def example_result_def str_nat_1000 str_nat_1
        du_dir_def du_env_def du_bar_def)

subsection \<open>Calling draw twice\<close>

lemma calc_bar_result:
  assumes "calc_bar sy e s = Inr s1"
  shows "\<exists>oc gc res. s1 = s\<lparr>owners := oc, groups := gc, result := Some res\<rparr>"
proof -
  obtain l oc gc where l: "get_left_part sy e s [] = Inr (l, s\<lparr>owners := oc, groups := gc\<rparr>)"
    using get_left_part_Inr by blast
  with assms show ?thesis
    by (auto simp add: calc_bar_def split: sum.splits)
qed

lemma recompute_result:
  assumes "recompute sy e s = Inr (s', cs)"
  shows "\<exists>res. cs = print_result res \<and> result s' = Some res
           \<and> \<not> need_redraw s' \<and> msg s' = msg s \<and> hint s' = hint s
           \<and> old_hint s' = old_hint s \<and> old_cf s' = old_cf s \<and> old_mtime s' = old_mtime s
           \<and> old_du s' = old_du s \<and> column s' = column s \<and> wid s' = wid s \<and> x_pos s' = x_pos s"
proof -
  from assms obtain s1 where c: "calc_bar sy e (s\<lparr>need_redraw := False\<rparr>) = Inr s1"
    by (auto simp add: recompute_def split: sum.splits)
  from calc_bar_result [OF c] obtain oc gc res where
    s1: "s1 = s\<lparr>need_redraw := False, owners := oc, groups := gc, result := Some res\<rparr>"
    by blast
  from assms c s1 have "s' = s1" "cs = print_result res"
    by (simp_all add: recompute_def)
  with s1 show ?thesis by simp
qed

lemma draw_recomputed:
  assumes "\<not> hint_active s" "\<not> message_alive e s" "redraw_forced e (before_normal s)"
    "draw sy e s = Inr (s', cs)"
  shows "\<exists>res. cs = print_result res \<and> result s' = Some res
           \<and> \<not> need_redraw s' \<and> msg s' = None \<and> hint s' = hint s
           \<and> old_hint s' = old_hint (before_normal s)
           \<and> old_cf s' = map_option oid (cf e) \<and> old_mtime s' = Some (observed_mtime e)
           \<and> old_du s' = (if truthy_int (old_du s) \<and> \<not> truthy_int (disk_usage (cwd e))
                          then disk_usage (cwd e) else old_du s)"
proof -
  let ?b = "fingerprint_stored e (before_normal s)"
  have "draw sy e s = recompute sy e ?b"
    using assms draw_normal_path [of s e sy] draw_normal_forced [of e "before_normal s" sy] by simp
  with assms(4) have "recompute sy e ?b = Inr (s', cs)" by simp
  from recompute_result [OF this] show ?thesis
    by (auto simp add: fingerprint_stored_fields fingerprint_stored_more before_normal_fields)
qed

lemma draw_twice_normal:
  assumes "\<not> hint_active s" "\<not> message_alive e s" "draw sy e s = Inr (s1, cs)"
    "truthy_list (result s1)"
  shows "draw sy (e\<lparr>now := t\<rparr>) s1 = Inr (s1, [])"
proof (cases "redraw_forced e (before_normal s)")
  case False
  from draw_skips [OF assms(1) assms(2) False, of sy] assms(3) have s1: "s1 = s" by simp
  have "\<not> need_redraw (before_normal s)" using False by (simp add: redraw_forced_def)
  then have b: "before_normal s = s \<and> msg s = None" by (rule before_normal_same)
  have "\<not> message_alive (e\<lparr>now := t\<rparr>) s" using b by (simp add: message_alive_def)
  moreover have "\<not> redraw_forced (e\<lparr>now := t\<rparr>) (before_normal s)"
    using False by (simp add: redraw_forced_def observed_mtime_def)
  ultimately show ?thesis using draw_skips [OF assms(1), of "e\<lparr>now := t\<rparr>" sy] s1 by simp
next
  case True
  from draw_recomputed [OF assms(1) assms(2) True assms(3)]
  have f: "\<not> need_redraw s1" "msg s1 = None" "hint s1 = hint s"
    "old_hint s1 = old_hint (before_normal s)"
    "old_cf s1 = map_option oid (cf e)" "old_mtime s1 = Some (observed_mtime e)"
    "old_du s1 = (if truthy_int (old_du s) \<and> \<not> truthy_int (disk_usage (cwd e))
                          then disk_usage (cwd e) else old_du s)"
    by auto
  have "at_rest s1"
    using f assms(1) assms(4) before_normal_old_hint [of s]
    by (simp add: at_rest_def hint_active_def before_normal_fields)
  moreover have "\<not> (truthy_int (old_du s1) \<and> \<not> truthy_int (disk_usage (cwd (e\<lparr>now := t\<rparr>))))"
    using f by simp
  moreover have "old_cf s1 = map_option oid (cf (e\<lparr>now := t\<rparr>))"
    "old_mtime s1 = Some (observed_mtime (e\<lparr>now := t\<rparr>))"
    using f by (simp_all add: observed_mtime_def)
  ultimately show ?thesis by (rule draw_at_rest)
qed

text \<open>
  While a hint is active, the stored hint is never set to the hint, so every call of
  \<open>draw\<close> finds them different and draws the hint again.
\<close>

lemma hint_drawn_on_every_call:
  assumes "hint_active s" "old_hint s \<noteq> hint s"
  shows "draw sy e s = Inr (s\<lparr>need_redraw := True\<rparr>, draw_hint sy s)"
    and "second_draw sy e s = Inr (s\<lparr>need_redraw := True\<rparr>, draw_hint sy s)"
proof -
  show a: "draw sy e s = Inr (s\<lparr>need_redraw := True\<rparr>, draw_hint sy s)"
    using assms by (simp add: draw_hint_path)
  have "hint_active (s\<lparr>need_redraw := True\<rparr>)"
    using assms(1) by (simp add: hint_active_def)
  then have "draw sy e (s\<lparr>need_redraw := True\<rparr>) =
      Inr (s\<lparr>need_redraw := True\<rparr>, draw_hint sy (s\<lparr>need_redraw := True\<rparr>))"
    by (simp add: draw_hint_path)
  then show "second_draw sy e s = Inr (s\<lparr>need_redraw := True\<rparr>, draw_hint sy s)"
    using a by (simp add: second_draw_def draw_hint_def)
qed

subsection \<open>Hint, message and bar\<close>



subsection \<open>The scroll indicator\<close>

lemma round_half_even_nearest: "\<bar>real_of_int (round_half_even q) - q\<bar> \<le> 1 / 2"
  unfolding round_half_even_def Let_def by (auto simp add: abs_if) linarith+

lemma scroll_indicator_spec:
  "\<exists>tags. scroll_indicator t c right =
     right @ [\<lparr>fstring = spec_indicator (marked_items t \<noteq> []) (int (len t)) (int (hei c))
                            (int (scroll_begin t)),
               lst = tags\<rparr>]"
  by (simp add: scroll_indicator_def spec_indicator_def Let_def add_def format_0f_def)

lemma get_right_part_shape:
  assumes "column s = Some c" "target c = Some t" "accessible t" "files t = Some fs"
  shows "\<exists>r2. right_summary sy t right = Inr r2
           \<and> get_right_part sy s right =
               Inr (scroll_indicator t c (r2 @ [\<lparr>fstring = ''  '', lst = [''space'']\<rparr>]))"
proof -
  obtain r2 where r: "right_summary sy t right = Inr r2"
    using right_summary_Inr [of t sy right] assms(4) by auto
  then show ?thesis using assms by (simp add: get_right_part_def add_def)
qed

text \<open>
  C8. The last piece that \<open>_get_right_part\<close> adds, after the two spaces, is the
  indicator of the specification: \<open>Mrk\<close>, else \<open>All\<close>, else \<open>Top\<close>, else \<open>Bot\<close>, else
  the percentage; the number shown is an integer nearest to the exact quotient.
\<close>

theorem scroll_indicator_priority:
  "(\<exists>tags. scroll_indicator t c right =
      right @ [\<lparr>fstring = spec_indicator (marked_items t \<noteq> []) (int (len t)) (int (hei c))
                             (int (scroll_begin t)),
                lst = tags\<rparr>])
   \<and> \<bar>real_of_int (round_half_even q) - q\<bar> \<le> 1 / 2
   \<and> (column s = Some c \<and> target c = Some t \<and> accessible t \<and> files t = Some fs \<longrightarrow>
        (\<exists>r2 tags. get_right_part sy s [] =
           Inr (r2 @ [\<lparr>fstring = ''  '', lst = [''space'']\<rparr>,
                      \<lparr>fstring = spec_indicator (marked_items t \<noteq> []) (int (len t)) (int (hei c))
                                   (int (scroll_begin t)),
                       lst = tags\<rparr>])))"
proof -
  have "\<exists>r2 tags. get_right_part sy s [] =
           Inr (r2 @ [\<lparr>fstring = ''  '', lst = [''space'']\<rparr>,
                      \<lparr>fstring = spec_indicator (marked_items t \<noteq> []) (int (len t)) (int (hei c))
                                   (int (scroll_begin t)),
                       lst = tags\<rparr>])"
    if a: "column s = Some c" "target c = Some t" "accessible t" "files t = Some fs"
  proof -
    from get_right_part_shape [OF a, of sy "[]"] obtain r2 where
      g: "get_right_part sy s [] = Inr (scroll_indicator t c (r2 @ [\<lparr>fstring = ''  '', lst = [''space'']\<rparr>]))"
      by blast
    from scroll_indicator_spec [of t c "r2 @ [\<lparr>fstring = ''  '', lst = [''space'']\<rparr>]"] obtain tags where
      "scroll_indicator t c (r2 @ [\<lparr>fstring = ''  '', lst = [''space'']\<rparr>]) =
         (r2 @ [\<lparr>fstring = ''  '', lst = [''space'']\<rparr>]) @
         [\<lparr>fstring = spec_indicator (marked_items t \<noteq> []) (int (len t)) (int (hei c))
                            (int (scroll_begin t)), lst = tags\<rparr>]"
      by blast
    with g show ?thesis by auto
  qed
  then show ?thesis
    using scroll_indicator_spec [of t c right] round_half_even_nearest [of q] by blast
qed

lemma str_nat_50: "str_nat 50 = ''50''"
  by code_simp

theorem scroll_indicator_priority_witness:
  "scroll_indicator (example_dir\<lparr>len := 50\<rparr>) \<lparr>target = None, hei = 50\<rparr> [] =
     [\<lparr>fstring = ''All'', lst = [''scroll'', ''all'']\<rparr>]
   \<and> scroll_indicator (example_dir\<lparr>len := 20, scroll_begin := 0\<rparr>) \<lparr>target = None, hei = 10\<rparr> [] =
     [\<lparr>fstring = ''Top'', lst = [''scroll'', ''top'']\<rparr>]
   \<and> scroll_indicator (example_dir\<lparr>len := 20, scroll_begin := 10\<rparr>) \<lparr>target = None, hei = 10\<rparr> [] =
     [\<lparr>fstring = ''Bot'', lst = [''scroll'', ''bot'']\<rparr>]
   \<and> scroll_indicator (example_dir\<lparr>len := 20, scroll_begin := 5\<rparr>) \<lparr>target = None, hei = 10\<rparr> [] =
     [\<lparr>fstring = ''50%'', lst = [''scroll'', ''percentage'']\<rparr>]
   \<and> scroll_indicator marked_dir \<lparr>target = None, hei = 10\<rparr> [] =
     [\<lparr>fstring = ''Mrk'', lst = [''scroll'', ''marked'']\<rparr>]
   \<and> get_right_part example_system (example_bar\<lparr>column := Some \<lparr>target = Some (example_dir\<lparr>len := 20, scroll_begin := 5\<rparr>), hei = 10\<rparr>\<rparr>) [] =
       Inr [\<lparr>fstring = ''?'', lst = []\<rparr>, \<lparr>fstring = '', '', lst = [''space'']\<rparr>,
            \<lparr>fstring = ''small'', lst = []\<rparr>, \<lparr>fstring = ''  '', lst = [''space'']\<rparr>,
            \<lparr>fstring = ''50%'', lst = [''scroll'', ''percentage'']\<rparr>]"
  using scroll_indicator_priority [where t = "example_dir\<lparr>len := 20, scroll_begin := 5\<rparr>"
      and c = "\<lparr>target = Some (example_dir\<lparr>len := 20, scroll_begin := 5\<rparr>), hei = 10\<rparr>"
      and s = "example_bar\<lparr>column := Some \<lparr>target = Some (example_dir\<lparr>len := 20, scroll_begin := 5\<rparr>), hei = 10\<rparr>\<rparr>"
      and sy = example_system and fs = "[example_file, root_file]" and right = "[]" and q = 50]
  by (simp add: example_defs code_defs format_0f_def round_half_even_def str_nat_50
        marked_dir_def five_files_def sized_file_def)

subsection \<open>The summary of the marked items\<close>

lemma all_marked_iff_same_length:
  assumes "distinct (map oid fs)" "distinct (map oid ms)" "oid ` set ms \<subseteq> oid ` set fs"
  shows "length ms = length fs \<longleftrightarrow> oid ` set fs \<subseteq> oid ` set ms"
proof -
  have cf: "card (oid ` set fs) = length fs"
    using distinct_card [OF assms(1)] by simp
  have cm: "card (oid ` set ms) = length ms"
    using distinct_card [OF assms(2)] by simp
  show ?thesis
  proof
    assume "length ms = length fs"
    then have "card (oid ` set ms) = card (oid ` set fs)" using cf cm by simp
    with assms(3) have "oid ` set ms = oid ` set fs"
      by (simp add: card_subset_eq)
    then show "oid ` set fs \<subseteq> oid ` set ms" by simp
  next
    assume "oid ` set fs \<subseteq> oid ` set ms"
    with assms(3) have "oid ` set ms = oid ` set fs" by blast
    then show "length ms = length fs" using cf cm by simp
  qed
qed

text \<open>
  C9. The files of a directory are distinct objects and the marked items are distinct
  objects among them. When items are marked, the summary is the disk usage of the
  directory if every listed item is marked, and otherwise the sum of the sizes of the
  marked items that are plain files; the next piece is \<open>" / "\<close> and the number of marked
  items. These two pieces open the right part.
\<close>

theorem marked_summary:
  "marked_items t \<noteq> [] \<and> files t = Some fs \<and> distinct (map oid fs)
   \<and> distinct (map oid (marked_items t)) \<and> oid ` set (marked_items t) \<subseteq> oid ` set fs \<longrightarrow>
     right_summary sy t right =
       Inr (right @
            [\<lparr>fstring = human_readable sy
                 (if oid ` set fs \<subseteq> oid ` set (marked_items t) then disk_usage t
                  else Some (sum_list (map fsize (filter is_file (marked_items t))))),
               lst = []\<rparr>,
             \<lparr>fstring = '' / '' @ str_nat (length (marked_items t)), lst = []\<rparr>])
     \<and> (column s = Some c \<and> target c = Some t \<and> accessible t \<longrightarrow>
          (\<exists>indicator. get_right_part sy s [] =
             Inr ([\<lparr>fstring = human_readable sy
                      (if oid ` set fs \<subseteq> oid ` set (marked_items t) then disk_usage t
                       else Some (sum_list (map fsize (filter is_file (marked_items t))))),
                    lst = []\<rparr>,
                   \<lparr>fstring = '' / '' @ str_nat (length (marked_items t)), lst = []\<rparr>,
                   \<lparr>fstring = ''  '', lst = [''space'']\<rparr>, indicator])))"
proof (intro impI, elim conjE)
  assume a: "marked_items t \<noteq> []" "files t = Some fs" "distinct (map oid fs)"
    "distinct (map oid (marked_items t))" "oid ` set (marked_items t) \<subseteq> oid ` set fs"
  let ?summary = "\<lambda>right. right @
            [\<lparr>fstring = human_readable sy
                 (if oid ` set fs \<subseteq> oid ` set (marked_items t) then disk_usage t
                  else Some (sum_list (map fsize (filter is_file (marked_items t))))),
               lst = []\<rparr>,
             \<lparr>fstring = '' / '' @ str_nat (length (marked_items t)), lst = []\<rparr>]"
  have l: "length (marked_items t) = length fs \<longleftrightarrow> oid ` set fs \<subseteq> oid ` set (marked_items t)"
    using a(3) a(4) a(5) by (rule all_marked_iff_same_length)
  have r: "right_summary sy t right = Inr (?summary right)" for right
    using a(1) a(2) l by (simp add: right_summary_def Let_def add_def)
  have "\<exists>indicator. get_right_part sy s [] =
             Inr (?summary [] @ [\<lparr>fstring = ''  '', lst = [''space'']\<rparr>, indicator])"
    if b: "column s = Some c" "target c = Some t" "accessible t"
  proof -
    from scroll_indicator_spec [of t c "?summary [] @ [\<lparr>fstring = ''  '', lst = [''space'']\<rparr>]"]
    obtain ind where "scroll_indicator t c (?summary [] @ [\<lparr>fstring = ''  '', lst = [''space'']\<rparr>]) =
        (?summary [] @ [\<lparr>fstring = ''  '', lst = [''space'']\<rparr>]) @ [ind]"
      by blast
    then have "get_right_part sy s [] = Inr (?summary [] @ [\<lparr>fstring = ''  '', lst = [''space'']\<rparr>, ind])"
      using b a(2) r [of "[]"] by (simp add: get_right_part_def add_def)
    then show ?thesis by blast
  qed
  with r [of right] show "right_summary sy t right = Inr (?summary right)
     \<and> (column s = Some c \<and> target c = Some t \<and> accessible t \<longrightarrow>
          (\<exists>indicator. get_right_part sy s [] =
             Inr ([\<lparr>fstring = human_readable sy
                      (if oid ` set fs \<subseteq> oid ` set (marked_items t) then disk_usage t
                       else Some (sum_list (map fsize (filter is_file (marked_items t))))),
                    lst = []\<rparr>,
                   \<lparr>fstring = '' / '' @ str_nat (length (marked_items t)), lst = []\<rparr>,
                   \<lparr>fstring = ''  '', lst = [''space'']\<rparr>, indicator])))"
    by simp
qed

lemma str_nat_3: "str_nat (Suc (Suc (Suc 0))) = ''3''"
  by code_simp

lemma str_nat_5: "str_nat (Suc (Suc (Suc (Suc (Suc 0))))) = ''5''"
  by code_simp

theorem marked_summary_witness:
  "right_summary example_system marked_dir [] =
     Inr [\<lparr>fstring = human_readable example_system (Some 60), lst = []\<rparr>,
          \<lparr>fstring = '' / 3'', lst = []\<rparr>]
   \<and> right_summary example_system all_marked_dir [] =
     Inr [\<lparr>fstring = human_readable example_system (disk_usage all_marked_dir), lst = []\<rparr>,
          \<lparr>fstring = '' / 5'', lst = []\<rparr>]
   \<and> get_right_part example_system (example_bar\<lparr>column := Some \<lparr>target = Some marked_dir, hei = 10\<rparr>\<rparr>) [] =
     Inr [\<lparr>fstring = ''small'', lst = []\<rparr>, \<lparr>fstring = '' / 3'', lst = []\<rparr>,
          \<lparr>fstring = ''  '', lst = [''space'']\<rparr>,
          \<lparr>fstring = ''Mrk'', lst = [''scroll'', ''marked'']\<rparr>]"
  using marked_summary [where t = marked_dir and fs = five_files and sy = example_system
      and right = "[]" and c = "\<lparr>target = Some marked_dir, hei = 10\<rparr>"
      and s = "example_bar\<lparr>column := Some \<lparr>target = Some marked_dir, hei = 10\<rparr>\<rparr>"]
    marked_summary [where t = all_marked_dir and fs = five_files and sy = example_system
      and right = "[]"]
  by (simp add: example_defs code_defs marked_dir_def all_marked_dir_def five_files_def
        sized_file_def str_nat_3 str_nat_5)

subsection \<open>The left part\<close>





subsection \<open>Splitting at the separator\<close>




subsection \<open>Drawing a hint\<close>








subsection \<open>Floats\<close>

lemma double_exponent_iff:
  assumes "0 < x"
  shows "double_exponent x = e \<longleftrightarrow> 2 powi (e + 52) \<le> x \<and> x < 2 powi (e + 53)"
proof -
  have "\<lfloor>log 2 x\<rfloor> = e + 52 \<longleftrightarrow>
          2 powr real_of_int (e + 52) \<le> x \<and> x < 2 powr real_of_int (e + 52 + 1)"
    using assms by (intro floor_log_eq_powr_iff) auto
  moreover have "(2::real) powr real_of_int (e + 52) = 2 powi (e + 52)"
    by (intro powr_real_of_int') auto
  moreover have "(2::real) powr real_of_int (e + 52 + 1) = 2 powi (e + 53)"
    using powr_real_of_int' [of "2::real" "e + 53"] by (simp add: algebra_simps)
  moreover have "double_exponent x = e \<longleftrightarrow> \<lfloor>log 2 x\<rfloor> = e + 52"
    using assms by (auto simp add: double_exponent_def)
  ultimately show ?thesis by simp
qed





lemma double_round_eval:
  assumes "0 < x" "2 powi (e + 52) \<le> x" "x < 2 powi (e + 53)"
  shows "double_round x = of_int (round_half_even (x / 2 powi e)) * 2 powi e"
proof -
  have "double_exponent x = e" using assms by (simp add: double_exponent_iff)
  then show ?thesis using assms(1) by (simp add: double_round_def)
qed


lemma double_round_12: "double_round 12 = 12"
  by (subst double_round_eval [of 12 "- 49"]) (simp_all add: round_half_even_def)






subsection \<open>Painting the bar that is computed\<close>


lemma painted_not_empty: "painted res \<noteq> []"
  by (simp add: painted_def)











lemma first_draw_calls: "painted example_result = example_calls"
  by (simp add: painted_def example_result_def example_calls_def)

subsection \<open>Messages\<close>






subsection \<open>The modification time that cannot be read\<close>




subsection \<open>Calling draw twice while a message is alive\<close>

lemma draw_message_twice:
  assumes "\<not> hint_active s" "msg s = Some m" "is_alive (now e) m" "\<not> message_rejected sy s m"
  shows "\<exists>s2. draw sy e s = Inr (s2, message_calls s m) \<and> result s2 = result s
           \<and> msg s2 = msg s \<and> draw sy e s2 = Inr (s2, message_calls s m)"
proof (cases "truthy_hint (old_hint s) \<and> \<not> truthy_hint (hint s)")
  case True
  let ?s1 = "s\<lparr>old_hint := HNone, need_redraw := True\<rparr>"
  have a: "draw sy e s = Inr (?s1, message_calls s m)"
    using assms True by (simp add: draw_message_path)
  have "\<not> hint_active ?s1" "msg ?s1 = Some m" "\<not> message_rejected sy ?s1 m"
    using assms by (simp_all add: hint_active_def message_rejected_def)
  then have "draw sy e ?s1 = Inr (?s1, message_calls ?s1 m)"
    using assms(3) by (simp add: draw_message_path)
  then have "draw sy e ?s1 = Inr (?s1, message_calls s m)"
    by (simp add: message_calls_def)
  with a show ?thesis using assms(2) by (intro exI [of _ ?s1]) simp
next
  case False
  have a: "draw sy e s = Inr (s, message_calls s m)"
    using assms False by (auto simp add: draw_message_path)
  then show ?thesis using assms by simp
qed

lemma draw_message_rejected:
  assumes "\<not> hint_active s" "msg s = Some m" "is_alive (now e) m" "message_rejected sy s m"
  shows "draw sy e s = Inl CursesError"
  using assms by (simp add: draw_message_path)

text \<open>
  C2, as the code has it. On the path without overlay, when a call of \<open>draw\<close> leaves a
  cached bar that is not empty, the next call that reads the same values (whatever the
  clock shows) does not compute the bar, writes nothing and leaves the widget as it is.
  While a message is alive and the window accepts its text, every call erases the
  window and writes the message again, and leaves the cached bar alone. When the window
  rejects the text of the message, \<open>draw\<close> raises the error of the window.
\<close>

theorem draw_twice:
  "(\<not> hint_active s \<and> \<not> message_alive e s \<and> draw sy e s = Inr (s1, cs)
      \<and> truthy_list (result s1) \<longrightarrow>
      draw sy (e\<lparr>now := t\<rparr>) s1 = Inr (s1, []))
   \<and> (\<not> hint_active s \<and> msg s = Some m \<and> is_alive (now e) m \<and> \<not> message_rejected sy s m \<longrightarrow>
        (\<exists>s2. draw sy e s = Inr (s2, message_calls s m) \<and> result s2 = result s
           \<and> msg s2 = msg s \<and> draw sy e s2 = Inr (s2, message_calls s m)))
   \<and> (\<not> hint_active s \<and> msg s = Some m \<and> is_alive (now e) m \<and> message_rejected sy s m \<longrightarrow>
        draw sy e s = Inl CursesError)"
  using draw_twice_normal [of s e sy s1 cs t] draw_message_twice [of s m e sy]
    draw_message_rejected [of s m e sy]
  by blast

theorem draw_twice_witness:
  "\<not> hint_active example_bar \<and> \<not> message_alive example_env example_bar
   \<and> draw example_system example_env example_bar = Inr (drawn_bar, example_calls)
   \<and> truthy_list (result drawn_bar)
   \<and> draw example_system (example_env\<lparr>now := 11\<rparr>) drawn_bar = Inr (drawn_bar, [])
   \<and> \<not> hint_active alive_message_bar
   \<and> msg alive_message_bar = Some (Message 8 ''copied'' 4 False)
   \<and> is_alive (now example_env) (Message 8 ''copied'' 4 False)
   \<and> \<not> message_rejected example_system alive_message_bar (Message 8 ''copied'' 4 False)
   \<and> draw example_system example_env alive_message_bar =
       Inr (alive_message_bar,
            [Erase, Color [''in_statusbar'', ''message'', ''good''], Addnstr 0 0 ''copied'' 80])
   \<and> message_rejected full_window_system alive_message_bar (Message 8 ''copied'' 4 False)
   \<and> draw full_window_system example_env alive_message_bar = Inl CursesError"
proof -
  note a = draw_twice [where s = example_bar and e = example_env and sy = example_system
      and ?s1.0 = drawn_bar and cs = example_calls and t = 11]
  note b = draw_twice [where s = alive_message_bar and e = example_env and sy = example_system
      and m = "Message 8 ''copied'' 4 False"]
  note c = draw_twice [where s = alive_message_bar and e = example_env and sy = full_window_system
      and m = "Message 8 ''copied'' 4 False"]
  have h: "draw example_system example_env example_bar = Inr (drawn_bar, example_calls)"
    by (simp add: example_defs code_defs drawn_bar_def example_result_def example_calls_def
          str_nat_1000 str_nat_1)
  have i: "draw example_system example_env alive_message_bar =
       Inr (alive_message_bar,
            [Erase, Color [''in_statusbar'', ''message'', ''good''], Addnstr 0 0 ''copied'' 80])"
    by (simp add: example_defs code_defs drawn_bar_def alive_message_bar_def double_round_12)
  have j: "\<not> hint_active example_bar" "\<not> message_alive example_env example_bar"
    "truthy_list (result drawn_bar)" "\<not> hint_active alive_message_bar"
    "msg alive_message_bar = Some (Message 8 ''copied'' 4 False)"
    "is_alive (now example_env) (Message 8 ''copied'' 4 False)"
    "\<not> message_rejected example_system alive_message_bar (Message 8 ''copied'' 4 False)"
    "message_rejected full_window_system alive_message_bar (Message 8 ''copied'' 4 False)"
    by (simp_all add: example_defs drawn_bar_def example_result_def alive_message_bar_def
          hint_active_def message_alive_def message_rejected_def full_window_system_def
          is_alive_def Message_def double_round_12)
  show ?thesis
    using a b c h i j by simp
qed

text \<open>
  C2, as the claim has it, fails while a message is alive: nothing changes between the
  two calls, and the second call writes the message to the window again.
\<close>

theorem draw_twice_counterexample:
  "second_draw example_system example_env alive_message_bar =
     Inr (alive_message_bar,
          [Erase, Color [''in_statusbar'', ''message'', ''good''], Addnstr 0 0 ''copied'' 80])
   \<and> second_draw example_system example_env alive_message_bar \<noteq> Inr (alive_message_bar, [])"
  by (simp add: second_draw_def example_defs code_defs drawn_bar_def alive_message_bar_def
        double_round_12)

subsection \<open>What is drawn once the hint is cleared\<close>






subsection \<open>The width that is left\<close>




end
